theory Spec2Isabelle
  imports Main
begin

section \<open>The query commands of \<open>query/command/command.go\<close>\<close>

text \<open>
  The file embeds \<open>SelectCommand.Execute\<close> and \<open>ProfilingCommand.Execute\<close>. The packages
  \<open>api\<close>, \<open>function\<close>, \<open>registry\<close>, \<open>inspect\<close>, \<open>natural_sort\<close> and \<open>timeseries\<close> are
  imported by the source and not part of it: what the commands call in them is a
  parameter of the model (the record \<open>packages\<close>), and a value of one of their interface
  types is the record of what its methods return.

  Go's \<open>int\<close>, \<open>int64\<close> and \<open>time.Duration\<close> are modelled as \<open>int\<close>: a \<open>time.Time\<close> is the
  number of nanoseconds since the epoch (what \<open>UnixNano\<close> returns) and a
  \<open>time.Duration\<close> a number of nanoseconds. Wrap-around at 64 bits is not modelled.
\<close>

subsection \<open>Integers, errors and outcomes\<close>

type_synonym time = int
type_synonym duration = int

text \<open>Go's integer division truncates towards zero; the caller checks the divisor,
  since a zero divisor panics in Go.\<close>

definition go_div :: "int \<Rightarrow> int \<Rightarrow> int" where
  "go_div a b = sgn a * sgn b * (\<bar>a\<bar> div \<bar>b\<bar>)"

text \<open>\<open>function.NewLimitError(message, actual, limit)\<close> takes two \<open>interface{}\<close> values:
  the source passes two \<open>int\<close>s for the slot limit and two \<open>time.Duration\<close>s for the
  timeout.\<close>

datatype limit_value = IntValue int | DurationValue duration

datatype error =
    LimitError string limit_value limit_value
  | Errorf string
  | Error string

datatype panic = DivideByZero | IndexOutOfRange

subsection \<open>Data\<close>

text \<open>An \<open>api.Timerange\<close> is read through seven methods; the model keeps what each
  returns.\<close>

record Timerange =
  Start :: time
  StartMillis :: int
  EndMillis :: int
  Resolution :: duration
  ResolutionMillis :: int
  Duration :: duration
  Slots :: int

typedecl float64

type_synonym TagSet = "string \<rightharpoonup> string"

record Timeseries =
  Values :: "float64 list"
  TagSet :: TagSet

record TaggedScalar =
  scalar_TagSet :: TagSet
  Value :: float64

text \<open>A \<open>function.Value\<close>: \<open>SeriesListValue\<close> is the type assertion
  \<open>v.(function.SeriesListValue)\<close> (the series when it holds), the other two fields are
  the conversions.\<close>

record Value =
  SeriesListValue :: "Timeseries list option"
  ToSeriesList :: "Timerange \<Rightarrow> error + Timeseries list"
  ToScalarSet :: "error + TaggedScalar list"

text \<open>The arguments the source passes to \<open>ExpressionDescription\<close>: the values of the
  calls \<open>function.StringQuery()\<close> and \<open>function.StringName()\<close>, and, at line 357, the
  function \<open>function.StringQuery\<close> itself, not called. The fourth argument, a
  \<open>function.WidestMode\<close>, carries a pointer: \<open>Widest\<close> is the content of \<open>*Earliest\<close>
  after the call, whose string is dropped by the source.\<close>

datatype DescriptionMode = StringQueryMode | StringNameMode | StringQueryFunc

record 'r WidestMode =
  widest_Registry :: 'r
  Current :: time
  Earliest :: time
  widest_Resolution :: duration

record 'r Expression =
  ExpressionDescription :: "DescriptionMode \<Rightarrow> string"
  Widest :: "'r WidestMode \<Rightarrow> time"

type_synonym Predicate = "TagSet \<Rightarrow> bool"

record 'r ExecutionContext =
  ChooseResolution :: "Timerange \<Rightarrow> duration \<Rightarrow> error + duration"
  FetchLimit :: int
  Timeout :: duration
  Registry :: "'r option"
  SlotLimit :: int
  Profiler :: "nat option"
  AdditionalConstraints :: "Predicate option"

record SelectContext =
  select_Start :: int
  select_End :: int
  select_Resolution :: int
  SampleMethod :: int

record 'r SelectCommand =
  select_Predicate :: Predicate
  Expressions :: "'r Expression list"
  Context :: SelectContext

record QueryResult =
  Query :: string
  query_Name :: string
  Type :: string
  Series :: "Timeseries list"
  query_Timerange :: "Timerange option"
  Scalars :: "TaggedScalar list"

datatype metadata_value =
    Description "string \<rightharpoonup> string list"
  | Notes "string list"
  | ResolutionValue duration
  | Profiles "string list"
  | Count nat

text \<open>\<open>Result{}\<close> has a nil body and a nil metadata map: \<open>None\<close> in both fields.\<close>

record 'b Result =
  Body :: "'b option"
  Metadata :: "(string \<rightharpoonup> metadata_value) option"

definition empty_Result :: "'b Result" where
  "empty_Result = \<lparr>Body = None, Metadata = None\<rparr>"

text \<open>What a call of \<open>Execute\<close> does: it panics, it never returns (its \<open>select\<close> blocks
  for ever), or it returns the pair \<open>(Result, error)\<close>.\<close>

datatype 'b outcome = Panics panic | Blocks | Returns "'b Result" "error option"

record 'r EvaluationContext =
  eval_FetchLimit :: int
  eval_Predicate :: Predicate
  eval_SampleMethod :: int
  eval_Timerange :: Timerange
  eval_Registry :: 'r
  eval_Profiler :: "nat option"
  eval_Timeout :: duration

text \<open>The functions of other packages that \<open>SelectCommand.Execute\<close> calls.
  \<open>EvaluateMany\<close> is \<open>None\<close> when the evaluation never returns; \<open>EvaluationNotes\<close> is what
  \<open>evaluationContext.Notes()\<close> returns after the evaluation.\<close>

record 'r packages =
  NewSnappedTimerange :: "int \<Rightarrow> int \<Rightarrow> int \<Rightarrow> error + Timerange"
  registry_Default :: 'r
  EvaluateMany :: "'r EvaluationContext \<Rightarrow> 'r Expression list \<Rightarrow> (error + Value list) option"
  EvaluationNotes :: "'r EvaluationContext \<Rightarrow> 'r Expression list \<Rightarrow> string list"
  natural_sort :: "string list \<Rightarrow> string list"

text \<open>Modelled from the spec: \<open>predicate.All\<close> (package \<open>predicate\<close>) is missing from the
  sources. A predicate is
  "composable via conjunction with an additional, caller-supplied constraint", which
  is optional.\<close>

definition predicate_All :: "Predicate \<Rightarrow> Predicate option \<Rightarrow> Predicate" where
  "predicate_All p q = (case q of None \<Rightarrow> p | Some c \<Rightarrow> (\<lambda>tagset. p tagset \<and> c tagset))"

subsection \<open>Channels and the evaluation task (lines 291 to 302)\<close>

text \<open>A buffered channel is its capacity and the values sent and not yet received.
  \<open>send\<close> is a send at a moment when no receiver waits on the channel: it goes through
  when the buffer has room and blocks for ever (\<open>None\<close>) otherwise.\<close>

record 'a chan =
  cap :: nat
  buf :: "'a list"

definition make_chan :: "nat \<Rightarrow> 'a chan" where
  "make_chan n = \<lparr>cap = n, buf = []\<rparr>"

definition send :: "'a chan \<Rightarrow> 'a \<Rightarrow> 'a chan option" where
  "send c v = (if length (buf c) < cap c then Some (c\<lparr>buf := buf c @ [v]\<rparr>) else None)"

text \<open>The two channels \<open>Execute\<close> allocates, \<open>results\<close> and \<open>errors\<close>.\<close>

definition Execute_channels :: "Value list chan \<times> error chan" where
  "Execute_channels = (make_chan 1, make_chan 1)"

text \<open>The goroutine: it evaluates, then sends the error or the values. The result is
  the state of the two channels once it has ended, \<open>None\<close> when it never ends.\<close>

definition goroutine ::
  "(error + Value list) option \<Rightarrow> Value list chan \<times> error chan \<Rightarrow>
   (Value list chan \<times> error chan) option" where
  "goroutine evaluation chans =
     (case evaluation of
        None \<Rightarrow> None
      | Some (Inl err) \<Rightarrow>
          (case send (snd chans) err of None \<Rightarrow> None | Some errors \<Rightarrow> Some (fst chans, errors))
      | Some (Inr result) \<Rightarrow>
          (case send (fst chans) result of None \<Rightarrow> None | Some results \<Rightarrow> Some (results, snd chans)))"

text \<open>Which case of the \<open>select\<close> statement is ready first: the context's \<open>Done\<close>
  channel, or the task's send. With a \<open>Timeout\<close> other than 0 the context is derived
  with that timeout (lines 259 to 269); when its \<open>Done\<close> channel fires is a matter of
  wall-clock time, so which case comes first is an input of the model.\<close>

datatype race = DoneFirst | TaskFirst

subsection \<open>\<open>SelectCommand.Execute\<close>\<close>

text \<open>Lines 203 to 207.\<close>

definition slotLimit :: "'r ExecutionContext \<Rightarrow> int" where
  "slotLimit context = (if SlotLimit context = 0 then 1000 else SlotLimit context)"

text \<open>Lines 227 to 229 and 271 to 274.\<close>

definition registry_of :: "'r packages \<Rightarrow> 'r ExecutionContext \<Rightarrow> 'r" where
  "registry_of env context =
     (case Registry context of None \<Rightarrow> registry_Default env | Some r \<Rightarrow> r)"

text \<open>Lines 230 to 232: every expression is described in widening mode, one after the
  other, on the same \<open>earliest\<close> cell. The result is the content of the cell after the
  loop.\<close>

fun widen :: "'r WidestMode \<Rightarrow> 'r Expression list \<Rightarrow> time" where
  "widen widening [] = Earliest widening"
| "widen widening (expression # rest) =
     widen (widening\<lparr>Earliest := Widest expression widening\<rparr>) rest"

text \<open>Lines 217 to 232.\<close>

definition earliest_of ::
  "'r packages \<Rightarrow> 'r ExecutionContext \<Rightarrow> 'r SelectCommand \<Rightarrow> Timerange \<Rightarrow> time" where
  "earliest_of env context cmd userTimerange =
     widen \<lparr>widest_Registry = registry_of env context,
            Current = Start userTimerange,
            Earliest = Start userTimerange,
            widest_Resolution = Resolution userTimerange\<rparr> (Expressions cmd)"

text \<open>Lines 234 to 240.\<close>

definition widenedTimerange :: "'r packages \<Rightarrow> Timerange \<Rightarrow> time \<Rightarrow> Timerange" where
  "widenedTimerange env userTimerange earliest =
     (case NewSnappedTimerange env (go_div earliest 1000000) (EndMillis userTimerange)
             (ResolutionMillis userTimerange) of
        Inl err \<Rightarrow> userTimerange
      | Inr widened \<Rightarrow> widened)"

text \<open>Lines 242 to 251: the backend chooses a resolution for the widened range, and
  the user's range is snapped again at that resolution. \<open>Inl\<close> is an early return.\<close>

definition chosenTimerange ::
  "'r packages \<Rightarrow> 'r ExecutionContext \<Rightarrow> Timerange \<Rightarrow> Timerange \<Rightarrow>
   (QueryResult list) outcome + duration \<times> Timerange" where
  "chosenTimerange env context userTimerange widened =
     (case ChooseResolution context widened
             (go_div (Duration userTimerange) (slotLimit context - 2)) of
        Inl err \<Rightarrow> Inl (Returns empty_Result (Some err))
      | Inr chosenResolution \<Rightarrow>
          (case NewSnappedTimerange env (StartMillis userTimerange) (EndMillis userTimerange)
                  (go_div chosenResolution 1000000) of
             Inl err \<Rightarrow> Inl (Returns empty_Result (Some err))
           | Inr chosen \<Rightarrow> Inr (chosenResolution, chosen)))"

text \<open>Lines 199 to 251. The division of line 209 comes before the widening; its
  divisor is \<open>slotLimit - 2\<close>.\<close>

definition negotiate ::
  "'r packages \<Rightarrow> 'r ExecutionContext \<Rightarrow> 'r SelectCommand \<Rightarrow> (QueryResult list) outcome + duration \<times> Timerange" where
  "negotiate env context cmd =
     (case NewSnappedTimerange env (select_Start (Context cmd)) (select_End (Context cmd))
             (select_Resolution (Context cmd)) of
        Inl err \<Rightarrow> Inl (Returns empty_Result (Some err))
      | Inr userTimerange \<Rightarrow>
          if slotLimit context - 2 = 0 then Inl (Panics DivideByZero)
          else chosenTimerange env context userTimerange
                 (widenedTimerange env userTimerange (earliest_of env context cmd userTimerange)))"

text \<open>Lines 309 to 321: the tag values of every series of every value that converts
  to a series list, appended under their keys. A tag set is a Go map: the inner loop
  visits each of its keys once, and appends to that key's list.\<close>

definition add_series :: "Timeseries \<Rightarrow> (string \<rightharpoonup> string list) \<Rightarrow> (string \<rightharpoonup> string list)" where
  "add_series series description =
     (\<lambda>key. case TagSet series key of
               None \<Rightarrow> description key
             | Some v \<Rightarrow> Some ((case description key of None \<Rightarrow> [] | Some vs \<Rightarrow> vs) @ [v]))"

fun collect ::
  "Timerange \<Rightarrow> Value list \<Rightarrow> (string \<rightharpoonup> string list) \<Rightarrow> (string \<rightharpoonup> string list)" where
  "collect timerange [] description = description"
| "collect timerange (v # rest) description =
     (case ToSeriesList v timerange of
        Inl err \<Rightarrow> collect timerange rest description
      | Inr list \<Rightarrow> collect timerange rest (fold add_series list description))"

text \<open>Lines 324 to 329.\<close>

definition filtered :: "string list \<Rightarrow> string list" where
  "filtered vs = map (\<lambda>i. vs ! i) (filter (\<lambda>i. i = 0 \<or> vs ! (i - 1) \<noteq> vs ! i) [0..<length vs])"

text \<open>Lines 322 to 331.\<close>

definition sort_and_filter ::
  "(string list \<Rightarrow> string list) \<Rightarrow> (string \<rightharpoonup> string list) \<Rightarrow> (string \<rightharpoonup> string list)" where
  "sort_and_filter sorter description =
     (\<lambda>key. case description key of None \<Rightarrow> None | Some vs \<Rightarrow> Some (filtered (sorter vs)))"

text \<open>Lines 336 to 358, from index \<open>i\<close> on. Each of the three branches reads
  \<open>cmd.Expressions[i]\<close>, which panics when \<open>i\<close> is out of range.\<close>

fun body_from ::
  "'r Expression list \<Rightarrow> Timerange \<Rightarrow> nat \<Rightarrow> Value list \<Rightarrow>
   (QueryResult list) outcome + QueryResult list" where
  "body_from expressions chosen i [] = Inr []"
| "body_from expressions chosen i (v # rest) =
     (if length expressions \<le> i then Inl (Panics IndexOutOfRange)
      else
        (case SeriesListValue v of
           Some list \<Rightarrow>
             (case body_from expressions chosen (Suc i) rest of
                Inl stop \<Rightarrow> Inl stop
              | Inr body \<Rightarrow>
                  Inr (\<lparr>Query = ExpressionDescription (expressions ! i) StringQueryMode,
                        query_Name = ExpressionDescription (expressions ! i) StringNameMode,
                        Type = ''series'',
                        Series = list,
                        query_Timerange = Some chosen,
                        Scalars = []\<rparr> # body))
         | None \<Rightarrow>
             (case ToScalarSet v of
                Inr scalars \<Rightarrow>
                  (case body_from expressions chosen (Suc i) rest of
                     Inl stop \<Rightarrow> Inl stop
                   | Inr body \<Rightarrow>
                       Inr (\<lparr>Query = ExpressionDescription (expressions ! i) StringQueryMode,
                             query_Name = ExpressionDescription (expressions ! i) StringNameMode,
                             Type = ''scalars'',
                             Series = [],
                             query_Timerange = None,
                             Scalars = scalars\<rparr> # body))
              | Inl err \<Rightarrow>
                  Inl (Returns empty_Result
                        (Some (Errorf (''query '' @ ExpressionDescription (expressions ! i) StringQueryFunc
                                        @ '' does not result in a timeseries or scalar.'')))))))"

text \<open>Lines 271 to 289.\<close>

definition evaluationContext ::
  "'r packages \<Rightarrow> 'r ExecutionContext \<Rightarrow> 'r SelectCommand \<Rightarrow> Timerange \<Rightarrow> 'r EvaluationContext" where
  "evaluationContext env context cmd chosen =
     \<lparr>eval_FetchLimit = FetchLimit context,
      eval_Predicate = predicate_All (select_Predicate cmd) (AdditionalConstraints context),
      eval_SampleMethod = SampleMethod (Context cmd),
      eval_Timerange = chosen,
      eval_Registry = registry_of env context,
      eval_Profiler = Profiler context,
      eval_Timeout = Timeout context\<rparr>"

text \<open>Lines 308 to 368: the branch of the \<open>select\<close> that received the values.\<close>

definition assemble ::
  "'r packages \<Rightarrow> 'r SelectCommand \<Rightarrow> 'r EvaluationContext \<Rightarrow> duration \<Rightarrow> Timerange \<Rightarrow>
   Value list \<Rightarrow> (QueryResult list) outcome" where
  "assemble env cmd ectx chosenResolution chosen result =
     (let description =
            sort_and_filter (natural_sort env) (collect (eval_Timerange ectx) result Map.empty)
      in case body_from (Expressions cmd) chosen 0 result of
           Inl stop \<Rightarrow> stop
         | Inr body \<Rightarrow>
             Returns \<lparr>Body = Some body,
                      Metadata = Some [''description'' \<mapsto> Description description,
                                       ''notes'' \<mapsto> Notes (EvaluationNotes env ectx (Expressions cmd)),
                                       ''resolution'' \<mapsto> ResolutionValue chosenResolution]\<rparr>
                     None)"

text \<open>Lines 259 to 369: the task is started on the two fresh channels and the caller
  waits in the \<open>select\<close>.\<close>

definition evaluate ::
  "'r packages \<Rightarrow> race \<Rightarrow> 'r ExecutionContext \<Rightarrow> 'r SelectCommand \<Rightarrow> duration \<Rightarrow> Timerange \<Rightarrow>
   (QueryResult list) outcome" where
  "evaluate env first context cmd chosenResolution chosen =
     (let ectx = evaluationContext env context cmd chosen
      in case first of
           DoneFirst \<Rightarrow>
             Returns empty_Result
               (Some (LimitError ''Timeout while executing the query.''
                        (DurationValue (Timeout context)) (DurationValue (Timeout context))))
         | TaskFirst \<Rightarrow>
             (case goroutine (EvaluateMany env ectx (Expressions cmd)) Execute_channels of
                None \<Rightarrow> Blocks
              | Some (results, errors) \<Rightarrow>
                  (case buf errors of
                     err # _ \<Rightarrow> Returns empty_Result (Some err)
                   | [] \<Rightarrow>
                       (case buf results of
                          result # _ \<Rightarrow> assemble env cmd ectx chosenResolution chosen result
                        | [] \<Rightarrow> Blocks))))"

text \<open>Lines 253 to 369, after the negotiation of the range.\<close>

definition Execute_from ::
  "'r packages \<Rightarrow> race \<Rightarrow> 'r ExecutionContext \<Rightarrow> 'r SelectCommand \<Rightarrow>
   (QueryResult list) outcome + duration \<times> Timerange \<Rightarrow> (QueryResult list) outcome" where
  "Execute_from env first context cmd negotiated =
     (case negotiated of
        Inl stop \<Rightarrow> stop
      | Inr (chosenResolution, chosen) \<Rightarrow>
          if Slots chosen > slotLimit context
          then Returns empty_Result
                 (Some (LimitError ''Requested number of data points exceeds the configured limit''
                          (IntValue (Slots chosen)) (IntValue (slotLimit context))))
          else evaluate env first context cmd chosenResolution chosen)"

definition SelectCommand_Execute ::
  "'r packages \<Rightarrow> race \<Rightarrow> 'r ExecutionContext \<Rightarrow> 'r SelectCommand \<Rightarrow> (QueryResult list) outcome" where
  "SelectCommand_Execute env first context cmd =
     Execute_from env first context cmd (negotiate env context cmd)"

text \<open>Lines 371 to 373.\<close>

definition SelectCommand_Name :: string where
  "SelectCommand_Name = ''select''"

subsection \<open>\<open>ProfilingCommand\<close>\<close>

text \<open>An \<open>inspect.Profiler\<close> is reached through a pointer: the state is the list of
  spans every profiler has recorded so far, by address. Wall-clock time is not
  modelled, so a span is its name. A \<open>Command\<close> is an interface: the record of its two
  methods, where \<open>Execute\<close> may record spans in the profiler of its context.\<close>

type_synonym profilers = "nat \<Rightarrow> string list"

record ('r, 'b) Command =
  Name :: string
  Execute :: "'r ExecutionContext \<Rightarrow> profilers \<Rightarrow> 'b outcome \<times> profilers"

record ('r, 'b) ProfilingCommand =
  profiling_Profiler :: nat
  profiling_Command :: "('r, 'b) Command"

text \<open>Lines 388 to 390.\<close>

definition ProfilingCommand_Name :: "('r, 'b) ProfilingCommand \<Rightarrow> string" where
  "ProfilingCommand_Name cmd = Name (profiling_Command cmd)"

text \<open>Modelled from the spec: \<open>Profiler.Record\<close> (package \<open>inspect\<close>) is missing from the
  sources. It "records a named timing span covering the entire wrapped call", closed
  by the function it returns: closing appends the span to the profiler's list.\<close>

definition Record_closed :: "nat \<Rightarrow> string \<Rightarrow> profilers \<Rightarrow> profilers" where
  "Record_closed profiler name recorded = recorded(profiler := recorded profiler @ [name])"

text \<open>Lines 392 to 407. The deferred call closes the span on every path that leaves
  the function, a panic included; \<open>Profiler.All()\<close> reads the profiler's list before
  that.\<close>

definition ProfilingCommand_Execute ::
  "('r, 'b) ProfilingCommand \<Rightarrow> 'r ExecutionContext \<Rightarrow> profilers \<Rightarrow> 'b outcome \<times> profilers" where
  "ProfilingCommand_Execute cmd context recorded =
     (let deferred = Record_closed (profiling_Profiler cmd) (ProfilingCommand_Name cmd @ ''.Execute'')
      in case Execute (profiling_Command cmd) (context\<lparr>Profiler := Some (profiling_Profiler cmd)\<rparr>)
                recorded of
           (Panics p, recorded') \<Rightarrow> (Panics p, deferred recorded')
         | (Blocks, recorded') \<Rightarrow> (Blocks, recorded')
         | (Returns result (Some err), recorded') \<Rightarrow>
             (Returns empty_Result (Some err), deferred recorded')
         | (Returns result None, recorded') \<Rightarrow>
             (let profiles = recorded' (profiling_Profiler cmd)
              in (Returns
                    (if length profiles \<noteq> 0
                     then result\<lparr>Metadata :=
                            Some ((case Metadata result of None \<Rightarrow> Map.empty | Some m \<Rightarrow> m)
                                    (''profile'' \<mapsto> Profiles profiles))\<rparr>
                     else result)
                    None,
                  deferred recorded')))"

text \<open>A \<open>SelectCommand\<close> as a \<open>Command\<close>. The spans that the evaluation records in the
  profiler of its context are not modelled.\<close>

definition SelectCommand_Command ::
  "'r packages \<Rightarrow> race \<Rightarrow> 'r SelectCommand \<Rightarrow> ('r, QueryResult list) Command" where
  "SelectCommand_Command env first cmd =
     \<lparr>Name = SelectCommand_Name,
      Execute = (\<lambda>context recorded. (SelectCommand_Execute env first context cmd, recorded))\<rparr>"

subsection \<open>What the specification says\<close>

text \<open>The execution reaches the slot check of line 253 with the user's range, the
  resolution chosen by the backend and the user's range snapped at that
  resolution.\<close>

definition reaches_slot_check ::
  "'r packages \<Rightarrow> 'r ExecutionContext \<Rightarrow> 'r SelectCommand \<Rightarrow> Timerange \<Rightarrow> duration \<Rightarrow>
   Timerange \<Rightarrow> bool" where
  "reaches_slot_check env context cmd userTimerange chosenResolution chosen =
     (NewSnappedTimerange env (select_Start (Context cmd)) (select_End (Context cmd))
        (select_Resolution (Context cmd)) = Inr userTimerange
      \<and> slotLimit context \<noteq> 2
      \<and> ChooseResolution context
          (widenedTimerange env userTimerange (earliest_of env context cmd userTimerange))
          (go_div (Duration userTimerange) (slotLimit context - 2)) = Inr chosenResolution
      \<and> NewSnappedTimerange env (StartMillis userTimerange) (EndMillis userTimerange)
          (go_div chosenResolution 1000000) = Inr chosen)"

text \<open>Modelled from the spec: how an expression widens (package \<open>function\<close>) is missing
  from the sources. "An expression may lower \<open>earliest\<close> (never raise it)".\<close>

definition never_raises :: "'r Expression \<Rightarrow> bool" where
  "never_raises expression = (\<forall>widening. Widest expression widening \<le> Earliest widening)"

text \<open>Modelled from the spec: \<open>api.NewSnappedTimerange\<close> is missing from the sources.
  "Snapping is idempotent: snapping an already-snapped range returns the same range",
  for every range the snapper returns; the snapped range is read back through the
  methods that line 234 calls.\<close>

definition snapping_idempotent :: "'r packages \<Rightarrow> bool" where
  "snapping_idempotent env =
     (\<forall>start finish resolution timerange.
        NewSnappedTimerange env start finish resolution = Inr timerange \<longrightarrow>
        NewSnappedTimerange env (go_div (Start timerange) 1000000) (EndMillis timerange)
          (ResolutionMillis timerange) = Inr timerange)"

text \<open>The metadata of a result has an entry under the key \<open>profile\<close>.\<close>

definition has_profile :: "'b Result \<Rightarrow> bool" where
  "has_profile result = (case Metadata result of None \<Rightarrow> False | Some m \<Rightarrow> m ''profile'' \<noteq> None)"

text \<open>The values of a tag key over all series of all the values that convert to a
  series list, in the order of the results; and the description the specification
  gives for the key: these values naturally sorted, adjacent duplicates removed.\<close>

definition series_tag_values :: "Timeseries list \<Rightarrow> string \<Rightarrow> string list" where
  "series_tag_values list key =
     concat (map (\<lambda>series. case TagSet series key of None \<Rightarrow> [] | Some x \<Rightarrow> [x]) list)"

definition tag_values :: "Timerange \<Rightarrow> Value list \<Rightarrow> string \<Rightarrow> string list" where
  "tag_values timerange result key =
     concat (map (\<lambda>v. case ToSeriesList v timerange of
                         Inl err \<Rightarrow> []
                       | Inr list \<Rightarrow> series_tag_values list key) result)"

definition described ::
  "(string list \<Rightarrow> string list) \<Rightarrow> Timerange \<Rightarrow> Value list \<Rightarrow> string \<rightharpoonup> string list" where
  "described sorter timerange result key =
     (if tag_values timerange result key = [] then None
      else Some (remdups_adj (sorter (tag_values timerange result key))))"

subsection \<open>A reference instance of the imported packages\<close>

text \<open>Modelled from the spec: \<open>api.Timerange\<close> and \<open>api.NewSnappedTimerange\<close> are missing
  from the sources. A range is \<open>{start, end, resolution}\<close> in milliseconds, with
  "slot count = floor((end - start) / resolution) + 1"; "snapping aligns end to the
  grid implied by resolution from start; if the implied slot count or resolution is
  non-positive", it fails.\<close>

definition Timerange_of :: "int \<Rightarrow> int \<Rightarrow> int \<Rightarrow> Timerange" where
  "Timerange_of start finish resolution =
     \<lparr>Start = start * 1000000,
      StartMillis = start,
      EndMillis = finish,
      Resolution = resolution * 1000000,
      ResolutionMillis = resolution,
      Duration = (finish - start) * 1000000,
      Slots = (finish - start) div resolution + 1\<rparr>"

definition spec_NewSnappedTimerange :: "int \<Rightarrow> int \<Rightarrow> int \<Rightarrow> error + Timerange" where
  "spec_NewSnappedTimerange start finish resolution =
     (if resolution \<le> 0 \<or> (finish - start) div resolution + 1 \<le> 0
      then Inl (Error ''invalid timerange'')
      else Inr (Timerange_of start (start + (finish - start) div resolution * resolution)
                  resolution))"

text \<open>A second snapper, of the kind the comment of lines 210 to 215 reckons with ("a
  snap that moves the endpoints"): it moves the start and the end to the nearest
  multiple of the resolution.\<close>

definition nearest :: "int \<Rightarrow> int \<Rightarrow> int" where
  "nearest n resolution = (n + resolution div 2) div resolution * resolution"

definition nearest_NewSnappedTimerange :: "int \<Rightarrow> int \<Rightarrow> int \<Rightarrow> error + Timerange" where
  "nearest_NewSnappedTimerange start finish resolution =
     (if resolution \<le> 0 \<or> nearest finish resolution < nearest start resolution
      then Inl (Error ''invalid timerange'')
      else Inr (Timerange_of (nearest start resolution) (nearest finish resolution) resolution))"

text \<open>Modelled from the spec: \<open>natural_sort.Sort\<close> is missing from the sources, "assumed
  as a utility". Natural order: a string is cut into runs of digits and runs of other
  characters; two runs of digits compare as numbers, any other two runs character by
  character.\<close>

definition digit :: "char \<Rightarrow> bool" where
  "digit c = (48 \<le> (of_char c :: nat) \<and> (of_char c :: nat) \<le> 57)"

fun chunks :: "string \<Rightarrow> string list" where
  "chunks [] = []"
| "chunks (c # cs) =
     (case chunks cs of
        [] \<Rightarrow> [[c]]
      | chunk # rest \<Rightarrow>
          (case chunk of
             [] \<Rightarrow> [c] # rest
           | d # _ \<Rightarrow> if digit c = digit d then (c # chunk) # rest else [c] # chunk # rest))"

definition number :: "string \<Rightarrow> nat" where
  "number chunk = foldl (\<lambda>n c. 10 * n + (of_char c - 48)) 0 chunk"

fun string_less :: "string \<Rightarrow> string \<Rightarrow> bool" where
  "string_less [] [] = False"
| "string_less [] (b # bs) = True"
| "string_less (a # as) [] = False"
| "string_less (a # as) (b # bs) =
     ((of_char a :: nat) < of_char b \<or> (of_char a :: nat) = of_char b \<and> string_less as bs)"

definition chunk_less :: "string \<Rightarrow> string \<Rightarrow> bool" where
  "chunk_less a b =
     (if list_all digit a \<and> list_all digit b \<and> number a \<noteq> number b then number a < number b
      else string_less a b)"

fun chunks_less :: "string list \<Rightarrow> string list \<Rightarrow> bool" where
  "chunks_less [] [] = False"
| "chunks_less [] (b # bs) = True"
| "chunks_less (a # as) [] = False"
| "chunks_less (a # as) (b # bs) = (chunk_less a b \<or> \<not> chunk_less b a \<and> chunks_less as bs)"

definition natural_less :: "string \<Rightarrow> string \<Rightarrow> bool" where
  "natural_less a b = chunks_less (chunks a) (chunks b)"

fun natural_insert :: "string \<Rightarrow> string list \<Rightarrow> string list" where
  "natural_insert x [] = [x]"
| "natural_insert x (y # ys) =
     (if natural_less x y then x # y # ys else y # natural_insert x ys)"

definition spec_natural_sort :: "string list \<Rightarrow> string list" where
  "spec_natural_sort xs = foldr natural_insert xs []"

text \<open>The packages of the reference instance. The evaluation is the second
  parameter: it is what the examples vary.\<close>

definition spec_packages :: "(error + Value list) option \<Rightarrow> unit packages" where
  "spec_packages evaluation =
     \<lparr>NewSnappedTimerange = spec_NewSnappedTimerange,
      registry_Default = (),
      EvaluateMany = (\<lambda>ectx expressions. evaluation),
      EvaluationNotes = (\<lambda>ectx expressions. []),
      natural_sort = spec_natural_sort\<rparr>"

text \<open>A backend that answers 2000 ms whatever it is asked, and a context with a slot
  limit and a timeout.\<close>

definition example_context :: "int \<Rightarrow> duration \<Rightarrow> unit ExecutionContext" where
  "example_context limit timeout =
     \<lparr>ChooseResolution = (\<lambda>timerange smallest. Inr 2000000000),
      FetchLimit = 100,
      Timeout = timeout,
      Registry = None,
      SlotLimit = limit,
      Profiler = None,
      AdditionalConstraints = None\<rparr>"

text \<open>An expression that asks for a lookback of three slots: it lowers \<open>earliest\<close> to
  three resolutions before the current start, and answers the two description modes
  \<open>function.StringQuery()\<close> and \<open>function.StringName()\<close> with its text.\<close>

definition lookback_expression :: "string \<Rightarrow> unit Expression" where
  "lookback_expression text =
     \<lparr>ExpressionDescription =
        (\<lambda>mode. case mode of StringQueryMode \<Rightarrow> text | StringNameMode \<Rightarrow> text | StringQueryFunc \<Rightarrow> []),
      Widest =
        (\<lambda>widening. if Current widening - 3 * widest_Resolution widening < Earliest widening
                     then Current widening - 3 * widest_Resolution widening
                     else Earliest widening)\<rparr>"

text \<open>An expression that breaks the contract: it moves \<open>earliest\<close> a day after the
  current start.\<close>

definition raising_expression :: "string \<Rightarrow> unit Expression" where
  "raising_expression text =
     \<lparr>ExpressionDescription =
        (\<lambda>mode. case mode of StringQueryMode \<Rightarrow> text | StringNameMode \<Rightarrow> text | StringQueryFunc \<Rightarrow> []),
      Widest = (\<lambda>widening. Current widening + 86400000000000)\<rparr>"

text \<open>The select of the specification's scenarios: from 0 to 9000 ms at 1000 ms.\<close>

definition example_select :: "unit Expression list \<Rightarrow> unit SelectCommand" where
  "example_select expressions =
     \<lparr>select_Predicate = (\<lambda>tagset. True),
      Expressions = expressions,
      Context = \<lparr>select_Start = 0, select_End = 9000, select_Resolution = 1000,
                 SampleMethod = 0\<rparr>\<rparr>"

text \<open>A select from 600 to 9000 ms at 1000 ms, without expressions.\<close>

definition unaligned_select :: "unit SelectCommand" where
  "unaligned_select =
     \<lparr>select_Predicate = (\<lambda>tagset. True),
      Expressions = [],
      Context = \<lparr>select_Start = 600, select_End = 9000, select_Resolution = 1000,
                 SampleMethod = 0\<rparr>\<rparr>"

text \<open>The same select with a resolution of 0, which does not snap.\<close>

definition invalid_select :: "unit SelectCommand" where
  "invalid_select =
     \<lparr>select_Predicate = (\<lambda>tagset. True),
      Expressions = [],
      Context = \<lparr>select_Start = 0, select_End = 9000, select_Resolution = 0, SampleMethod = 0\<rparr>\<rparr>"

text \<open>Three values: a series list of hosts, a string (neither a series list nor a
  scalar set) and an empty scalar set.\<close>

definition host_series :: "string list \<Rightarrow> Timeseries list" where
  "host_series hosts = map (\<lambda>host. \<lparr>Values = [], TagSet = [''host'' \<mapsto> host]\<rparr>) hosts"

definition series_value :: "string list \<Rightarrow> Value" where
  "series_value hosts =
     \<lparr>SeriesListValue = Some (host_series hosts),
      ToSeriesList = (\<lambda>timerange. Inr (host_series hosts)),
      ToScalarSet = Inl (Error ''cannot convert a series list to a scalar set'')\<rparr>"

definition string_value :: Value where
  "string_value =
     \<lparr>SeriesListValue = None,
      ToSeriesList = (\<lambda>timerange. Inl (Error ''cannot convert a string to a series list'')),
      ToScalarSet = Inl (Error ''cannot convert a string to a scalar set'')\<rparr>"

definition scalars_value :: Value where
  "scalars_value =
     \<lparr>SeriesListValue = None,
      ToSeriesList = (\<lambda>timerange. Inl (Error ''cannot convert a scalar set to a series list'')),
      ToScalarSet = Inr []\<rparr>"

section \<open>Properties\<close>

subsection \<open>The negotiation of the range\<close>

lemma negotiate_reaches:
  "reaches_slot_check env context cmd userTimerange chosenResolution chosen \<Longrightarrow>
   negotiate env context cmd = Inr (chosenResolution, chosen)"
  by (simp add: reaches_slot_check_def negotiate_def chosenTimerange_def)

lemma negotiate_Inr:
  "negotiate env context cmd = Inr (chosenResolution, chosen) \<Longrightarrow>
   \<exists>userTimerange. reaches_slot_check env context cmd userTimerange chosenResolution chosen"
  by (auto simp: reaches_slot_check_def negotiate_def chosenTimerange_def
      split: sum.splits if_splits)

lemma body_from_no_success:
  "body_from expressions chosen i vals \<noteq> Inl (Returns result None)"
  by (induction vals arbitrary: i) (auto split: option.splits sum.splits)

lemma evaluate_success:
  "evaluate env first context cmd chosenResolution chosen = Returns result None \<Longrightarrow>
   \<exists>vals body.
     first = TaskFirst \<and>
     EvaluateMany env (evaluationContext env context cmd chosen) (Expressions cmd) = Some (Inr vals) \<and>
     body_from (Expressions cmd) chosen 0 vals = Inr body \<and>
     result = \<lparr>Body = Some body,
               Metadata = Some [''description'' \<mapsto>
                                  Description (sort_and_filter (natural_sort env)
                                    (collect chosen vals Map.empty)),
                                ''notes'' \<mapsto> Notes (EvaluationNotes env
                                    (evaluationContext env context cmd chosen) (Expressions cmd)),
                                ''resolution'' \<mapsto> ResolutionValue chosenResolution]\<rparr>"
  apply (cases first)
   apply (simp add: evaluate_def)
  apply (cases "EvaluateMany env (evaluationContext env context cmd chosen) (Expressions cmd)")
   apply (simp add: evaluate_def goroutine_def)
  subgoal for ev
    apply (cases ev)
     apply (simp add: evaluate_def goroutine_def send_def Execute_channels_def make_chan_def)
    apply (simp add: evaluate_def goroutine_def send_def Execute_channels_def make_chan_def
        assemble_def evaluationContext_def body_from_no_success split: sum.splits)
    done
  done

lemma Execute_success:
  assumes "SelectCommand_Execute env first context cmd = Returns result None"
  shows "\<exists>chosenResolution chosen.
           negotiate env context cmd = Inr (chosenResolution, chosen) \<and>
           Slots chosen \<le> slotLimit context \<and>
           evaluate env first context cmd chosenResolution chosen = Returns result None"
proof (cases "negotiate env context cmd")
  case (Inl stop)
  with assms have "stop = Returns result None"
    by (simp add: SelectCommand_Execute_def Execute_from_def)
  with Inl show ?thesis
    by (auto simp: negotiate_def chosenTimerange_def split: sum.splits if_splits)
next
  case (Inr p)
  obtain chosenResolution chosen where p: "p = (chosenResolution, chosen)"
    by (cases p)
  with Inr assms show ?thesis
    by (auto simp: SelectCommand_Execute_def Execute_from_def split: if_splits)
qed

text \<open>C10: when the context's \<open>SlotLimit\<close> is 2 and the user's start, end and resolution
  snap, the divisor \<open>slotLimit - 2\<close> of line 209 is zero and \<open>Execute\<close> panics with a
  division by zero: it returns neither a result nor an error.\<close>

theorem slot_limit_two_panics:
  assumes "SlotLimit context = 2"
    and "NewSnappedTimerange env (select_Start (Context cmd)) (select_End (Context cmd))
           (select_Resolution (Context cmd)) = Inr userTimerange"
  shows "slotLimit context - 2 = 0 \<and>
         SelectCommand_Execute env first context cmd = Panics DivideByZero"
  using assms
  by (simp add: SelectCommand_Execute_def Execute_from_def negotiate_def slotLimit_def)

text \<open>C1: when the range snapped at the resolution the backend chose has more slots than
  the effective slot limit, \<open>Execute\<close> returns a \<open>LimitError\<close> that carries this slot
  count and the limit; and when \<open>Execute\<close> succeeds, the chosen range has at most
  \<open>slotLimit\<close> slots.\<close>

theorem slot_limit_enforced:
  "(\<forall>userTimerange chosenResolution chosen.
      reaches_slot_check env context cmd userTimerange chosenResolution chosen \<and>
      slotLimit context < Slots chosen \<longrightarrow>
      SelectCommand_Execute env first context cmd =
        Returns empty_Result
          (Some (LimitError ''Requested number of data points exceeds the configured limit''
                   (IntValue (Slots chosen)) (IntValue (slotLimit context))))) \<and>
   (\<forall>result.
      SelectCommand_Execute env first context cmd = Returns result None \<longrightarrow>
      (\<exists>userTimerange chosenResolution chosen.
         reaches_slot_check env context cmd userTimerange chosenResolution chosen \<and>
         Slots chosen \<le> slotLimit context))"
proof (intro conjI allI impI)
  fix userTimerange chosenResolution chosen
  assume "reaches_slot_check env context cmd userTimerange chosenResolution chosen \<and>
      slotLimit context < Slots chosen"
  then show "SelectCommand_Execute env first context cmd =
        Returns empty_Result
          (Some (LimitError ''Requested number of data points exceeds the configured limit''
                   (IntValue (Slots chosen)) (IntValue (slotLimit context))))"
    by (auto simp: SelectCommand_Execute_def Execute_from_def dest: negotiate_reaches)
next
  fix result
  assume "SelectCommand_Execute env first context cmd = Returns result None"
  from Execute_success [OF this] negotiate_Inr
  show "\<exists>userTimerange chosenResolution chosen.
         reaches_slot_check env context cmd userTimerange chosenResolution chosen \<and>
         Slots chosen \<le> slotLimit context"
    by blast
qed

lemma example_reaches:
  "reaches_slot_check (spec_packages evaluation) (example_context 3 timeout) (example_select [])
     (Timerange_of 0 9000 1000) 2000000000 (Timerange_of 0 8000 2000)"
  by (simp add: reaches_slot_check_def spec_packages_def example_context_def example_select_def
      spec_NewSnappedTimerange_def slotLimit_def go_div_def Timerange_of_def)

text \<open>The scenario range with a slot limit of 2.\<close>

theorem slot_limit_two_panics_witness:
  "SlotLimit (example_context 2 0) = 2 \<and>
   NewSnappedTimerange (spec_packages None) 0 9000 1000 = Inr (Timerange_of 0 9000 1000) \<and>
   SelectCommand_Execute (spec_packages None) TaskFirst (example_context 2 0) (example_select []) =
     Panics DivideByZero"
proof -
  have limit: "SlotLimit (example_context 2 0) = 2"
    by (simp add: example_context_def)
  have snapped: "NewSnappedTimerange (spec_packages None) (select_Start (Context (example_select [])))
      (select_End (Context (example_select []))) (select_Resolution (Context (example_select []))) =
      Inr (Timerange_of 0 9000 1000)"
    by (simp add: spec_packages_def example_select_def spec_NewSnappedTimerange_def)
  from slot_limit_two_panics [OF limit snapped, of TaskFirst] limit snapped show ?thesis
    by (simp add: example_select_def)
qed

text \<open>Scenario B of the specification with a backend that answers 2000 ms (five slots
  against a limit of 3), and scenario A (five slots against a limit of 10).\<close>

theorem slot_limit_enforced_witness:
  "SelectCommand_Execute (spec_packages None) TaskFirst (example_context 3 0) (example_select []) =
     Returns empty_Result
       (Some (LimitError ''Requested number of data points exceeds the configured limit''
                (IntValue 5) (IntValue 3))) \<and>
   (\<exists>userTimerange chosenResolution chosen.
      reaches_slot_check (spec_packages (Some (Inr []))) (example_context 10 0) (example_select [])
        userTimerange chosenResolution chosen \<and>
      Slots chosen \<le> slotLimit (example_context 10 0))"
proof -
  have over: "reaches_slot_check (spec_packages None) (example_context 3 0) (example_select [])
       (Timerange_of 0 9000 1000) 2000000000 (Timerange_of 0 8000 2000) \<and>
     slotLimit (example_context 3 0) < Slots (Timerange_of 0 8000 2000)"
    by (simp add: example_reaches) (simp add: slotLimit_def example_context_def Timerange_of_def)
  have ok: "\<exists>result. SelectCommand_Execute (spec_packages (Some (Inr []))) TaskFirst
      (example_context 10 0) (example_select []) = Returns result None"
    by (simp add: SelectCommand_Execute_def Execute_from_def negotiate_def chosenTimerange_def
        widenedTimerange_def earliest_of_def evaluate_def goroutine_def send_def
        Execute_channels_def make_chan_def assemble_def
        spec_packages_def example_context_def example_select_def
        spec_NewSnappedTimerange_def slotLimit_def go_div_def Timerange_of_def)
  from slot_limit_enforced [of "spec_packages None" "example_context 3 0" "example_select []" TaskFirst] over
  have first: "SelectCommand_Execute (spec_packages None) TaskFirst (example_context 3 0)
      (example_select []) =
     Returns empty_Result
       (Some (LimitError ''Requested number of data points exceeds the configured limit''
                (IntValue (Slots (Timerange_of 0 8000 2000)))
                (IntValue (slotLimit (example_context 3 0)))))"
    by blast
  from slot_limit_enforced [of "spec_packages (Some (Inr []))" "example_context 10 0" "example_select []" TaskFirst] ok
  have second: "\<exists>userTimerange chosenResolution chosen.
      reaches_slot_check (spec_packages (Some (Inr []))) (example_context 10 0) (example_select [])
        userTimerange chosenResolution chosen \<and>
      Slots chosen \<le> slotLimit (example_context 10 0)"
    by blast
  from first second show ?thesis
    by (simp add: slotLimit_def example_context_def Timerange_of_def)
qed

lemma earliest_of_EvaluateMany:
  "earliest_of (env\<lparr>EvaluateMany := evaluation\<rparr>) context cmd userTimerange =
   earliest_of env context cmd userTimerange"
  by (simp add: earliest_of_def registry_of_def split: option.splits)

lemma widenedTimerange_EvaluateMany:
  "widenedTimerange (env\<lparr>EvaluateMany := evaluation\<rparr>) userTimerange earliest =
   widenedTimerange env userTimerange earliest"
  by (simp add: widenedTimerange_def)

lemma chosenTimerange_EvaluateMany:
  "chosenTimerange (env\<lparr>EvaluateMany := evaluation\<rparr>) context userTimerange widened =
   chosenTimerange env context userTimerange widened"
  by (simp add: chosenTimerange_def split: sum.splits)

lemma negotiate_EvaluateMany:
  "negotiate (env\<lparr>EvaluateMany := evaluation\<rparr>) context cmd = negotiate env context cmd"
  by (simp add: negotiate_def earliest_of_EvaluateMany widenedTimerange_EvaluateMany
      chosenTimerange_EvaluateMany split: sum.splits)

text \<open>C2: when the context's \<open>Done\<close> channel is the first case of the \<open>select\<close> to be
  ready, that is when the timeout fires before the evaluation task has sent anything,
  \<open>Execute\<close> returns the \<open>LimitError\<close> of the configured timeout, whatever the
  evaluation returns later.\<close>

theorem timeout_returns_LimitError:
  assumes "reaches_slot_check env context cmd userTimerange chosenResolution chosen"
    and "Slots chosen \<le> slotLimit context"
    and "Timeout context \<noteq> 0"
  shows "SelectCommand_Execute (env\<lparr>EvaluateMany := evaluation\<rparr>) DoneFirst context cmd =
         Returns empty_Result
           (Some (LimitError ''Timeout while executing the query.''
                    (DurationValue (Timeout context)) (DurationValue (Timeout context))))"
proof -
  from assms(1) have "negotiate env context cmd = Inr (chosenResolution, chosen)"
    by (rule negotiate_reaches)
  with assms(2) show ?thesis
    by (simp add: SelectCommand_Execute_def Execute_from_def negotiate_EvaluateMany evaluate_def)
qed

text \<open>Scenario C of the specification: a timeout of 50 ms that fires first, while the
  evaluation would have produced a series list.\<close>

theorem timeout_returns_LimitError_witness:
  "Timeout (example_context 10 50000000) \<noteq> 0 \<and>
   SelectCommand_Execute (spec_packages (Some (Inr [series_value [''a'']]))) DoneFirst
     (example_context 10 50000000) (example_select [lookback_expression ''cpu'']) =
   Returns empty_Result
     (Some (LimitError ''Timeout while executing the query.''
              (DurationValue 50000000) (DurationValue 50000000)))"
proof -
  have reach: "reaches_slot_check (spec_packages None) (example_context 10 50000000)
      (example_select [lookback_expression ''cpu''])
      (Timerange_of 0 9000 1000) 2000000000 (Timerange_of 0 8000 2000)"
    by (simp add: reaches_slot_check_def spec_packages_def example_context_def example_select_def
      spec_NewSnappedTimerange_def slotLimit_def go_div_def Timerange_of_def)
  have slots: "Slots (Timerange_of 0 8000 2000) \<le> slotLimit (example_context 10 50000000)"
    by (simp add: slotLimit_def example_context_def Timerange_of_def)
  have timeout: "Timeout (example_context 10 50000000) \<noteq> 0"
    by (simp add: example_context_def)
  have env: "(spec_packages None)\<lparr>EvaluateMany := (\<lambda>ectx expressions. Some (Inr [series_value [''a'']]))\<rparr>
      = spec_packages (Some (Inr [series_value [''a'']]))"
    by (simp add: spec_packages_def)
  from timeout_returns_LimitError [OF reach slots timeout, of "\<lambda>ectx expressions. Some (Inr [series_value [''a'']])"]
    timeout show ?thesis
    by (simp add: env) (simp add: example_context_def)
qed

subsection \<open>Widening\<close>

text \<open>C3: when the widened range, from \<open>earliest\<close> to the user's end at the user's
  resolution, does not snap, the widened range is the user's range unchanged, and the
  execution goes on from line 242 with it: the error of the snap is dropped.\<close>

theorem widening_failure_falls_back:
  assumes "NewSnappedTimerange env (select_Start (Context cmd)) (select_End (Context cmd))
             (select_Resolution (Context cmd)) = Inr userTimerange"
    and "slotLimit context \<noteq> 2"
    and "NewSnappedTimerange env (go_div (earliest_of env context cmd userTimerange) 1000000)
           (EndMillis userTimerange) (ResolutionMillis userTimerange) = Inl err"
  shows "widenedTimerange env userTimerange (earliest_of env context cmd userTimerange) =
           userTimerange \<and>
         SelectCommand_Execute env first context cmd =
           Execute_from env first context cmd
             (chosenTimerange env context userTimerange userTimerange)"
  using assms by (simp add: SelectCommand_Execute_def negotiate_def widenedTimerange_def)

lemma raised_earliest:
  "earliest_of (spec_packages evaluation) (example_context 10 0)
     (example_select [raising_expression ''cpu'']) (Timerange_of 0 9000 1000) = 86400000000000"
  by (simp add: earliest_of_def example_select_def raising_expression_def Timerange_of_def)

text \<open>An expression that moves \<open>earliest\<close> past the end of the range: the widened
  range does not snap, and the execution goes on with the range from 0 to 9000 ms.\<close>

theorem widening_failure_falls_back_witness:
  "NewSnappedTimerange (spec_packages (Some (Inr [scalars_value]))) 86400000 9000 1000 =
     Inl (Error ''invalid timerange'') \<and>
   widenedTimerange (spec_packages (Some (Inr [scalars_value]))) (Timerange_of 0 9000 1000)
     86400000000000 = Timerange_of 0 9000 1000 \<and>
   SelectCommand_Execute (spec_packages (Some (Inr [scalars_value]))) TaskFirst
     (example_context 10 0) (example_select [raising_expression ''cpu'']) =
   Execute_from (spec_packages (Some (Inr [scalars_value]))) TaskFirst
     (example_context 10 0) (example_select [raising_expression ''cpu''])
     (Inr (2000000000, Timerange_of 0 8000 2000))"
proof -
  let ?env = "spec_packages (Some (Inr [scalars_value]))"
  let ?cmd = "example_select [raising_expression ''cpu'']"
  have user: "NewSnappedTimerange ?env (select_Start (Context ?cmd)) (select_End (Context ?cmd))
             (select_Resolution (Context ?cmd)) = Inr (Timerange_of 0 9000 1000)"
    by (simp add: spec_packages_def example_select_def spec_NewSnappedTimerange_def)
  have limit: "slotLimit (example_context 10 0) \<noteq> 2"
    by (simp add: slotLimit_def example_context_def)
  have fails: "NewSnappedTimerange ?env 86400000 9000 1000 = Inl (Error ''invalid timerange'')"
    by (simp add: spec_packages_def spec_NewSnappedTimerange_def)
  have fails': "NewSnappedTimerange ?env
      (go_div (earliest_of ?env (example_context 10 0) ?cmd (Timerange_of 0 9000 1000)) 1000000)
      (EndMillis (Timerange_of 0 9000 1000)) (ResolutionMillis (Timerange_of 0 9000 1000)) =
      Inl (Error ''invalid timerange'')"
    using fails by (simp add: raised_earliest go_div_def) (simp add: Timerange_of_def)
  have chosen: "chosenTimerange ?env (example_context 10 0) (Timerange_of 0 9000 1000)
      (Timerange_of 0 9000 1000) = Inr (2000000000, Timerange_of 0 8000 2000)"
    by (simp add: chosenTimerange_def example_context_def spec_packages_def
        spec_NewSnappedTimerange_def go_div_def Timerange_of_def)
  from widening_failure_falls_back [OF user limit fails', of TaskFirst] fails show ?thesis
    by (simp add: raised_earliest chosen)
qed

subsection \<open>The default slot limit\<close>

text \<open>A \<open>SlotLimit\<close> of \<open>-1\<close> is not replaced by 1000: the limit of the slot check is
  \<open>-1\<close>, and the select that succeeds under a limit of 1000 fails.\<close>

theorem negative_SlotLimit_is_kept:
  "SlotLimit (example_context (- 1) 0) \<le> 0 \<and>
   slotLimit (example_context (- 1) 0) = - 1 \<and>
   SelectCommand_Execute (spec_packages (Some (Inr []))) TaskFirst (example_context (- 1) 0)
     (example_select []) =
   Returns empty_Result
     (Some (LimitError ''Requested number of data points exceeds the configured limit''
              (IntValue 5) (IntValue (- 1)))) \<and>
   SelectCommand_Execute (spec_packages (Some (Inr []))) TaskFirst (example_context 1000 0)
     (example_select []) \<noteq>
   SelectCommand_Execute (spec_packages (Some (Inr []))) TaskFirst (example_context (- 1) 0)
     (example_select [])"
  by (simp add: SelectCommand_Execute_def Execute_from_def negotiate_def chosenTimerange_def
        widenedTimerange_def earliest_of_def evaluate_def goroutine_def send_def
        Execute_channels_def make_chan_def assemble_def
        spec_packages_def example_context_def example_select_def
        spec_NewSnappedTimerange_def slotLimit_def go_div_def Timerange_of_def)

text \<open>C4, amended: when the context's \<open>SlotLimit\<close> is 0, \<open>Execute\<close> uses 1000 in its
  place, for the smallest resolution and for the slot check: it does what it does
  with a \<open>SlotLimit\<close> of 1000. Any other \<open>SlotLimit\<close>, a negative one included, is used as
  it is.\<close>

theorem default_slot_limit:
  "(SlotLimit context = 0 \<longrightarrow>
      slotLimit context = 1000 \<and>
      SelectCommand_Execute env first context cmd =
        SelectCommand_Execute env first (context\<lparr>SlotLimit := 1000\<rparr>) cmd) \<and>
   (SlotLimit context \<noteq> 0 \<longrightarrow> slotLimit context = SlotLimit context)"
proof (intro conjI impI)
  assume zero: "SlotLimit context = 0"
  show "slotLimit context = 1000"
    using zero by (simp add: slotLimit_def)
  have limit: "slotLimit (context\<lparr>SlotLimit := 1000\<rparr>) = slotLimit context"
    using zero by (simp add: slotLimit_def)
  have earliest: "\<And>u. earliest_of env (context\<lparr>SlotLimit := 1000\<rparr>) cmd u = earliest_of env context cmd u"
    by (simp add: earliest_of_def registry_of_def)
  have chosen: "\<And>u w. chosenTimerange env (context\<lparr>SlotLimit := 1000\<rparr>) u w =
      chosenTimerange env context u w"
    by (simp add: chosenTimerange_def limit)
  have negotiated: "negotiate env (context\<lparr>SlotLimit := 1000\<rparr>) cmd = negotiate env context cmd"
    by (simp add: negotiate_def limit earliest chosen split: sum.splits)
  have evaluated: "evaluate env first (context\<lparr>SlotLimit := 1000\<rparr>) cmd r c =
      evaluate env first context cmd r c" for r c
    by (cases first) (simp_all add: evaluate_def evaluationContext_def registry_of_def Let_def)
  show "SelectCommand_Execute env first context cmd =
        SelectCommand_Execute env first (context\<lparr>SlotLimit := 1000\<rparr>) cmd"
    by (simp add: SelectCommand_Execute_def Execute_from_def negotiated limit evaluated
        split: sum.splits prod.splits)
next
  assume "SlotLimit context \<noteq> 0"
  then show "slotLimit context = SlotLimit context"
    by (simp add: slotLimit_def)
qed

text \<open>The contexts with a \<open>SlotLimit\<close> of 0 and of \<open>-1\<close>.\<close>

theorem default_slot_limit_witness:
  "SlotLimit (example_context 0 0) = 0 \<and>
   slotLimit (example_context 0 0) = 1000 \<and>
   SelectCommand_Execute (spec_packages (Some (Inr []))) TaskFirst (example_context 0 0)
     (example_select []) =
   SelectCommand_Execute (spec_packages (Some (Inr []))) TaskFirst (example_context 1000 0)
     (example_select []) \<and>
   SlotLimit (example_context (- 1) 0) \<noteq> 0 \<and>
   slotLimit (example_context (- 1) 0) = - 1"
proof -
  have zero: "SlotLimit (example_context 0 0) = 0"
    by (simp add: example_context_def)
  have other: "SlotLimit (example_context (- 1) 0) \<noteq> 0"
    by (simp add: example_context_def)
  have same: "(example_context 0 0)\<lparr>SlotLimit := 1000\<rparr> = example_context 1000 0"
    by (simp add: example_context_def)
  have minus: "SlotLimit (example_context (- 1) 0) = - 1"
    by (simp add: example_context_def)
  from default_slot_limit [of "example_context 0 0" "spec_packages (Some (Inr []))" TaskFirst "example_select []"]
    default_slot_limit [of "example_context (- 1) 0" "spec_packages (Some (Inr []))" TaskFirst "example_select []"]
    zero other show ?thesis
    by (simp add: same minus)
qed

subsection \<open>The body of the result\<close>

text \<open>What line 357 returns for a value that is neither a \<open>SeriesListValue\<close> nor
  convertible to a scalar set: the message is built from what the expression answers
  to the function \<open>function.StringQuery\<close>, not to the mode \<open>function.StringQuery()\<close> of
  lines 340 and 350.\<close>

lemma body_from_mismatch:
  assumes "i < length expressions" and "SeriesListValue v = None" and "ToScalarSet v = Inl err"
  shows "body_from expressions chosen i (v # rest) =
         Inl (Returns empty_Result
               (Some (Errorf (''query '' @ ExpressionDescription (expressions ! i) StringQueryFunc
                               @ '' does not result in a timeseries or scalar.''))))"
  using assms by simp

text \<open>C5: a value that is neither a series list nor a scalar set fails the select with
  an error whose message names the query text of its expression. Here the value is a
  string and the query text is \<open>cpu\<close>: the message of the error that \<open>Execute\<close> returns
  does not contain it.\<close>

theorem mismatch_message_without_query_text:
  "ToSeriesList string_value (Timerange_of 0 8000 2000) = Inl (Error ''cannot convert a string to a series list'') \<and>
   SeriesListValue string_value = None \<and>
   ToScalarSet string_value = Inl (Error ''cannot convert a string to a scalar set'') \<and>
   ExpressionDescription (lookback_expression ''cpu'') StringQueryMode = ''cpu'' \<and>
   SelectCommand_Execute (spec_packages (Some (Inr [string_value]))) TaskFirst
     (example_context 10 0) (example_select [lookback_expression ''cpu'']) =
   Returns empty_Result
     (Some (Errorf ''query  does not result in a timeseries or scalar.''))"
  by (simp add: SelectCommand_Execute_def Execute_from_def negotiate_def chosenTimerange_def
        widenedTimerange_def earliest_of_def evaluate_def goroutine_def send_def
        Execute_channels_def make_chan_def assemble_def string_value_def lookback_expression_def
        spec_packages_def example_context_def example_select_def
        spec_NewSnappedTimerange_def slotLimit_def go_div_def Timerange_of_def)

subsection \<open>The bound on \<open>earliest\<close>\<close>

lemma widen_le:
  "\<forall>expression \<in> set expressions. never_raises expression \<Longrightarrow>
   widen widening expressions \<le> Earliest widening"
proof (induction expressions arbitrary: widening)
  case Nil
  show ?case by simp
next
  case (Cons expression rest)
  have "widen (widening\<lparr>Earliest := Widest expression widening\<rparr>) rest
        \<le> Earliest (widening\<lparr>Earliest := Widest expression widening\<rparr>)"
    using Cons.prems by (intro Cons.IH) simp
  moreover have "Widest expression widening \<le> Earliest widening"
    using Cons.prems by (simp add: never_raises_def)
  ultimately show ?case by simp
qed

text \<open>\<open>Execute\<close> hands the cell \<open>earliest\<close> to the expressions and reads it back as it
  is. With an expression that moves it a day later, the value after the pass is above
  the start of the user's range, requested and snapped (both 0). And \<open>earliest\<close> starts
  from the snapped start: with a snapper that moves the start, a select without
  expressions that asks for 600 ms ends at 1000 ms.\<close>

theorem raised_earliest_above_start:
  "NewSnappedTimerange (spec_packages None) (select_Start (Context (example_select [raising_expression ''cpu''])))
     (select_End (Context (example_select [raising_expression ''cpu''])))
     (select_Resolution (Context (example_select [raising_expression ''cpu'']))) =
     Inr (Timerange_of 0 9000 1000) \<and>
   select_Start (Context (example_select [raising_expression ''cpu''])) = 0 \<and>
   Start (Timerange_of 0 9000 1000) = 0 \<and>
   earliest_of (spec_packages None) (example_context 10 0)
     (example_select [raising_expression ''cpu'']) (Timerange_of 0 9000 1000) = 86400000000000 \<and>
   \<not> earliest_of (spec_packages None) (example_context 10 0)
        (example_select [raising_expression ''cpu'']) (Timerange_of 0 9000 1000)
      \<le> Start (Timerange_of 0 9000 1000) \<and>
   NewSnappedTimerange ((spec_packages None)\<lparr>NewSnappedTimerange := nearest_NewSnappedTimerange\<rparr>)
     (select_Start (Context unaligned_select)) (select_End (Context unaligned_select))
     (select_Resolution (Context unaligned_select)) = Inr (Timerange_of 1000 9000 1000) \<and>
   earliest_of ((spec_packages None)\<lparr>NewSnappedTimerange := nearest_NewSnappedTimerange\<rparr>)
     (example_context 10 0) unaligned_select (Timerange_of 1000 9000 1000) = 1000000000 \<and>
   \<not> 1000000000 \<le> select_Start (Context unaligned_select) * 1000000"
  by (simp add: raised_earliest)
     (simp add: spec_packages_def example_select_def spec_NewSnappedTimerange_def
       unaligned_select_def nearest_NewSnappedTimerange_def nearest_def earliest_of_def
       Timerange_of_def)

text \<open>C6, amended: after the widening pass \<open>earliest\<close> is at most the start of the user's
  snapped range, where it started, for every list of expressions none of which raises
  \<open>earliest\<close>; for the empty list \<open>earliest\<close> is that start, and the widened range is the
  user's snapped range when snapping is idempotent.\<close>

theorem widening_lowers_earliest:
  assumes "NewSnappedTimerange env (select_Start (Context cmd)) (select_End (Context cmd))
             (select_Resolution (Context cmd)) = Inr userTimerange"
  shows "((\<forall>expression \<in> set (Expressions cmd). never_raises expression) \<longrightarrow>
            earliest_of env context cmd userTimerange \<le> Start userTimerange) \<and>
         (Expressions cmd = [] \<longrightarrow>
            earliest_of env context cmd userTimerange = Start userTimerange \<and>
            (snapping_idempotent env \<longrightarrow>
               widenedTimerange env userTimerange (earliest_of env context cmd userTimerange) =
                 userTimerange))"
proof (intro conjI impI)
  assume "\<forall>expression \<in> set (Expressions cmd). never_raises expression"
  then show "earliest_of env context cmd userTimerange \<le> Start userTimerange"
    unfolding earliest_of_def by (rule order_trans [OF widen_le]) simp
next
  assume "Expressions cmd = []"
  then show "earliest_of env context cmd userTimerange = Start userTimerange"
    by (simp add: earliest_of_def)
next
  assume empty: "Expressions cmd = []" and idempotent: "snapping_idempotent env"
  from idempotent assms
  have "NewSnappedTimerange env (go_div (Start userTimerange) 1000000) (EndMillis userTimerange)
      (ResolutionMillis userTimerange) = Inr userTimerange"
    unfolding snapping_idempotent_def by blast
  with empty show "widenedTimerange env userTimerange (earliest_of env context cmd userTimerange) =
      userTimerange"
    by (simp add: earliest_of_def widenedTimerange_def)
qed

text \<open>The snapper of the reference instance is idempotent.\<close>

lemma go_div_millis: "go_div (a * 1000000) 1000000 = a"
proof -
  have "go_div (a * 1000000) 1000000 = sgn a * \<bar>a\<bar>"
    by (simp add: go_div_def sgn_mult abs_mult)
  then show ?thesis
    by (simp add: sgn_mult_abs)
qed

lemma spec_snapping_idempotent: "snapping_idempotent (spec_packages evaluation)"
proof -
  have "spec_NewSnappedTimerange (go_div (Start timerange) 1000000) (EndMillis timerange)
      (ResolutionMillis timerange) = Inr timerange"
    if snapped: "spec_NewSnappedTimerange start finish resolution = Inr timerange"
    for start finish resolution timerange
  proof -
    let ?slots = "(finish - start) div resolution"
    from snapped have positive: "0 < resolution" and slots: "0 \<le> ?slots" and
      timerange: "timerange = Timerange_of start (start + ?slots * resolution) resolution"
      by (auto simp: spec_NewSnappedTimerange_def split: if_splits)
    have start: "go_div (Start timerange) 1000000 = start"
      by (simp add: timerange Timerange_of_def go_div_millis)
    have finish: "EndMillis timerange = start + ?slots * resolution"
      and resolution: "ResolutionMillis timerange = resolution"
      by (simp_all add: timerange Timerange_of_def)
    have again: "(start + ?slots * resolution - start) div resolution = ?slots"
      using positive by simp
    show ?thesis
      unfolding start finish resolution
      using positive slots by (simp add: spec_NewSnappedTimerange_def again timerange)
  qed
  then show ?thesis
    by (simp add: snapping_idempotent_def spec_packages_def)
qed

text \<open>An expression with a lookback of three slots lowers \<open>earliest\<close> from 0 to 3000 ms
  before; without expressions \<open>earliest\<close> stays at 0 and the widened range is the user's.\<close>

theorem widening_lowers_earliest_witness:
  "never_raises (lookback_expression ''cpu'') \<and>
   earliest_of (spec_packages None) (example_context 10 0)
     (example_select [lookback_expression ''cpu'']) (Timerange_of 0 9000 1000) = - 3000000000 \<and>
   - 3000000000 \<le> Start (Timerange_of 0 9000 1000) \<and>
   earliest_of (spec_packages None) (example_context 10 0) (example_select [])
     (Timerange_of 0 9000 1000) = Start (Timerange_of 0 9000 1000) \<and>
   snapping_idempotent (spec_packages None :: unit packages) \<and>
   widenedTimerange (spec_packages None) (Timerange_of 0 9000 1000)
     (earliest_of (spec_packages None) (example_context 10 0) (example_select [])
        (Timerange_of 0 9000 1000)) = Timerange_of 0 9000 1000"
proof -
  let ?lookback = "example_select [lookback_expression ''cpu'']"
  let ?none = "example_select [] :: unit SelectCommand"
  have lowers: "never_raises (lookback_expression ''cpu'')"
    by (simp add: never_raises_def lookback_expression_def)
  then have all: "\<forall>expression \<in> set (Expressions ?lookback). never_raises expression"
    by (simp add: example_select_def)
  have empty: "Expressions ?none = []"
    by (simp add: example_select_def)
  have user: "NewSnappedTimerange (spec_packages None) (select_Start (Context ?lookback))
      (select_End (Context ?lookback)) (select_Resolution (Context ?lookback)) =
      Inr (Timerange_of 0 9000 1000)"
    by (simp add: spec_packages_def example_select_def spec_NewSnappedTimerange_def)
  have user': "NewSnappedTimerange (spec_packages None) (select_Start (Context ?none))
      (select_End (Context ?none)) (select_Resolution (Context ?none)) =
      Inr (Timerange_of 0 9000 1000)"
    by (simp add: spec_packages_def example_select_def spec_NewSnappedTimerange_def)
  have idempotent: "snapping_idempotent (spec_packages None :: unit packages)"
    by (rule spec_snapping_idempotent)
  have lowered: "earliest_of (spec_packages None) (example_context 10 0) ?lookback
     (Timerange_of 0 9000 1000) = - 3000000000"
    by (simp add: earliest_of_def example_select_def lookback_expression_def Timerange_of_def)
  from widening_lowers_earliest [OF user, of "example_context 10 0"] all
  have below: "- 3000000000 \<le> Start (Timerange_of 0 9000 1000)"
    by (simp add: lowered)
  from widening_lowers_earliest [OF user', of "example_context 10 0"] empty idempotent
  have unchanged: "earliest_of (spec_packages None) (example_context 10 0) ?none
     (Timerange_of 0 9000 1000) = Start (Timerange_of 0 9000 1000) \<and>
    widenedTimerange (spec_packages None) (Timerange_of 0 9000 1000)
     (earliest_of (spec_packages None) (example_context 10 0) ?none
        (Timerange_of 0 9000 1000)) = Timerange_of 0 9000 1000"
    by blast
  from lowers lowered below unchanged idempotent show ?thesis
    by blast
qed

subsection \<open>The description\<close>

lemma filtered_snoc:
  "filtered (vs @ [v]) = filtered vs @ (if vs = [] \<or> last vs \<noteq> v then [v] else [])"
proof -
  have indices: "[0..<length (vs @ [v])] = [0..<length vs] @ [length vs]"
    by simp
  have same: "filter (\<lambda>i. i = 0 \<or> (vs @ [v]) ! (i - 1) \<noteq> (vs @ [v]) ! i) [0..<length vs] =
      filter (\<lambda>i. i = 0 \<or> vs ! (i - 1) \<noteq> vs ! i) [0..<length vs]"
    by (rule filter_cong) (auto simp: nth_append)
  have inside: "map (\<lambda>i. (vs @ [v]) ! i) (filter (\<lambda>i. i = 0 \<or> vs ! (i - 1) \<noteq> vs ! i) [0..<length vs]) =
      map (\<lambda>i. vs ! i) (filter (\<lambda>i. i = 0 \<or> vs ! (i - 1) \<noteq> vs ! i) [0..<length vs])"
    by (rule map_cong) (auto simp: nth_append)
  have before: "vs \<noteq> [] \<Longrightarrow> (vs @ [v]) ! (length vs - Suc 0) = last vs"
    by (simp add: nth_append last_conv_nth)
  have final: "map (\<lambda>i. (vs @ [v]) ! i)
        (filter (\<lambda>i. i = 0 \<or> (vs @ [v]) ! (i - 1) \<noteq> (vs @ [v]) ! i) [length vs]) =
      (if vs = [] \<or> last vs \<noteq> v then [v] else [])"
    by (cases "vs = []") (simp_all add: before)
  show ?thesis
    unfolding filtered_def indices filter_append map_append same inside final ..
qed

lemma remdups_adj_snoc:
  "remdups_adj (vs @ [v]) = remdups_adj vs @ (if vs = [] \<or> last vs \<noteq> v then [v] else [])"
proof (cases vs rule: rev_cases)
  case Nil
  then show ?thesis by simp
next
  case (snoc ws w)
  then show ?thesis by (simp add: remdups_adj_append_two)
qed

lemma filtered_remdups_adj: "filtered vs = remdups_adj vs"
proof (induction vs rule: rev_induct)
  case Nil
  show ?case by (simp add: filtered_def)
next
  case (snoc v vs)
  then show ?case by (simp only: filtered_snoc remdups_adj_snoc)
qed

lemma fold_add_series:
  "fold add_series list description key =
     (if series_tag_values list key = [] then description key
      else Some ((case description key of None \<Rightarrow> [] | Some vs \<Rightarrow> vs) @
                 series_tag_values list key))"
proof (induction list arbitrary: description)
  case Nil
  show ?case by (simp add: series_tag_values_def)
next
  case (Cons series rest)
  have step: "add_series series description key =
      (case TagSet series key of
         None \<Rightarrow> description key
       | Some x \<Rightarrow> Some ((case description key of None \<Rightarrow> [] | Some vs \<Rightarrow> vs) @ [x]))"
    by (simp add: add_series_def)
  have split: "series_tag_values (series # rest) key =
      (case TagSet series key of None \<Rightarrow> [] | Some x \<Rightarrow> [x]) @ series_tag_values rest key"
    by (simp add: series_tag_values_def)
  show ?case
    using Cons.IH [of "add_series series description"]
    by (cases "TagSet series key"; cases "description key") (simp_all add: step split)
qed

lemma collect_tag_values:
  "collect timerange result description key =
     (if tag_values timerange result key = [] then description key
      else Some ((case description key of None \<Rightarrow> [] | Some vs \<Rightarrow> vs) @
                 tag_values timerange result key))"
proof (induction result arbitrary: description)
  case Nil
  show ?case by (simp add: tag_values_def)
next
  case (Cons v rest)
  show ?case
  proof (cases "ToSeriesList v timerange")
    case (Inl err)
    then show ?thesis
      using Cons.IH [of description] by (simp add: tag_values_def)
  next
    case (Inr list)
    have added: "fold add_series list description key =
      (if series_tag_values list key = [] then description key
       else Some ((case description key of None \<Rightarrow> [] | Some vs \<Rightarrow> vs) @
                  series_tag_values list key))"
      by (rule fold_add_series)
    have rest: "collect timerange rest (fold add_series list description) key =
      (if tag_values timerange rest key = [] then fold add_series list description key
       else Some ((case fold add_series list description key of None \<Rightarrow> [] | Some vs \<Rightarrow> vs) @
                  tag_values timerange rest key))"
      by (rule Cons.IH)
    have split: "tag_values timerange (v # rest) key =
      series_tag_values list key @ tag_values timerange rest key"
      using Inr by (simp add: tag_values_def)
    have "collect timerange (v # rest) description key =
      collect timerange rest (fold add_series list description) key"
      using Inr by simp
    also have "\<dots> =
      (if tag_values timerange (v # rest) key = [] then description key
       else Some ((case description key of None \<Rightarrow> [] | Some vs \<Rightarrow> vs) @
                  tag_values timerange (v # rest) key))"
      unfolding rest added split by (cases "description key") simp_all
    finally show ?thesis .
  qed
qed

lemma description_described:
  "sort_and_filter sorter (collect timerange result Map.empty) =
   described sorter timerange result"
  by (rule ext)
     (simp add: sort_and_filter_def collect_tag_values described_def filtered_remdups_adj)

text \<open>C7: in the metadata of a successful select, the entry \<open>description\<close> gives for every
  tag key the values of that key over all series of all the values that convert to a
  series list, naturally sorted and with adjacent duplicates removed (and no entry for
  a key that no series has).\<close>

theorem description_sorted_union:
  assumes "SelectCommand_Execute env first context cmd = Returns result None"
  shows "\<exists>chosenResolution chosen vals metadata.
           negotiate env context cmd = Inr (chosenResolution, chosen) \<and>
           EvaluateMany env (evaluationContext env context cmd chosen) (Expressions cmd) =
             Some (Inr vals) \<and>
           Metadata result = Some metadata \<and>
           metadata ''description'' =
             Some (Description (described (natural_sort env) chosen vals))"
proof -
  from Execute_success [OF assms] obtain chosenResolution chosen where
    negotiated: "negotiate env context cmd = Inr (chosenResolution, chosen)" and
    evaluated: "evaluate env first context cmd chosenResolution chosen = Returns result None"
    by blast
  from evaluate_success [OF evaluated] obtain vals body where
    vals: "EvaluateMany env (evaluationContext env context cmd chosen) (Expressions cmd) =
      Some (Inr vals)" and
    result: "result = \<lparr>Body = Some body,
               Metadata = Some [''description'' \<mapsto>
                                  Description (sort_and_filter (natural_sort env)
                                    (collect chosen vals Map.empty)),
                                ''notes'' \<mapsto> Notes (EvaluationNotes env
                                    (evaluationContext env context cmd chosen) (Expressions cmd)),
                                ''resolution'' \<mapsto> ResolutionValue chosenResolution]\<rparr>"
    by blast
  from result have "Metadata result =
      Some [''description'' \<mapsto> Description (described (natural_sort env) chosen vals),
            ''notes'' \<mapsto> Notes (EvaluationNotes env
                                    (evaluationContext env context cmd chosen) (Expressions cmd)),
            ''resolution'' \<mapsto> ResolutionValue chosenResolution]"
    by (simp add: description_described)
  with negotiated vals show ?thesis
    by simp
qed

lemma hosts_negotiated:
  "negotiate (spec_packages evaluation) (example_context 10 0)
     (example_select [lookback_expression ''cpu'', lookback_expression ''mem'']) =
   Inr (2000000000, Timerange_of 0 8000 2000)"
  by (simp add: negotiate_def chosenTimerange_def widenedTimerange_def earliest_of_def
      spec_packages_def example_context_def example_select_def lookback_expression_def
      spec_NewSnappedTimerange_def slotLimit_def go_div_def Timerange_of_def)

lemma hosts_described:
  "described spec_natural_sort timerange
     [series_value [''b'', ''a''], series_value [''a'', ''c'']] ''host'' =
   Some [''a'', ''b'', ''c'']"
  by (simp add: described_def tag_values_def series_tag_values_def series_value_def
      host_series_def spec_natural_sort_def natural_less_def chunk_less_def digit_def number_def)

text \<open>The values \<open>b\<close>, \<open>a\<close>, \<open>a\<close>, \<open>c\<close> of the key \<open>host\<close>, over two series lists, are
  described as \<open>a\<close>, \<open>b\<close>, \<open>c\<close>.\<close>

theorem description_sorted_union_witness:
  "\<exists>result metadata description.
     SelectCommand_Execute
       (spec_packages (Some (Inr [series_value [''b'', ''a''], series_value [''a'', ''c'']])))
       TaskFirst (example_context 10 0)
       (example_select [lookback_expression ''cpu'', lookback_expression ''mem'']) =
       Returns result None \<and>
     Metadata result = Some metadata \<and>
     metadata ''description'' = Some (Description description) \<and>
     description ''host'' = Some [''a'', ''b'', ''c'']"
proof -
  let ?vals = "[series_value [''b'', ''a''], series_value [''a'', ''c'']]"
  let ?env = "spec_packages (Some (Inr ?vals))"
  let ?cmd = "example_select [lookback_expression ''cpu'', lookback_expression ''mem'']"
  have limit: "\<not> slotLimit (example_context 10 0) < Slots (Timerange_of 0 8000 2000)"
    by (simp add: slotLimit_def example_context_def Timerange_of_def)
  have continues: "SelectCommand_Execute ?env TaskFirst (example_context 10 0) ?cmd =
      evaluate ?env TaskFirst (example_context 10 0) ?cmd 2000000000 (Timerange_of 0 8000 2000)"
    by (simp add: SelectCommand_Execute_def Execute_from_def hosts_negotiated limit)
  have "\<exists>result. evaluate ?env TaskFirst (example_context 10 0) ?cmd 2000000000
      (Timerange_of 0 8000 2000) = Returns result None"
    by (simp add: evaluate_def goroutine_def send_def Execute_channels_def make_chan_def
         assemble_def spec_packages_def example_select_def series_value_def)
  then obtain result where
    ok: "SelectCommand_Execute ?env TaskFirst (example_context 10 0) ?cmd = Returns result None"
    unfolding continues by blast
  from description_sorted_union [OF ok] obtain chosenResolution chosen vals metadata where
    negotiated: "negotiate ?env (example_context 10 0) ?cmd = Inr (chosenResolution, chosen)" and
    evaluated: "EvaluateMany ?env (evaluationContext ?env (example_context 10 0) ?cmd chosen)
      (Expressions ?cmd) = Some (Inr vals)" and
    metadata: "Metadata result = Some metadata" and
    description: "metadata ''description'' =
      Some (Description (described (natural_sort ?env) chosen vals))"
    by blast
  from evaluated have vals: "vals = ?vals"
    by (simp add: spec_packages_def)
  have sorter: "natural_sort ?env = spec_natural_sort"
    by (simp add: spec_packages_def)
  from description have "metadata ''description'' =
      Some (Description (described spec_natural_sort chosen ?vals))"
    by (simp only: vals sorter)
  with ok metadata hosts_described [of chosen] show ?thesis
    by blast
qed

subsection \<open>The evaluation task\<close>

text \<open>On channels without a buffer the send of the task would block when nobody
  receives.\<close>

lemma goroutine_blocks_unbuffered:
  "goroutine (Some evaluation) (make_chan 0, make_chan 0) = None"
  by (cases evaluation) (simp_all add: goroutine_def send_def make_chan_def)

text \<open>C8: the channels \<open>results\<close> and \<open>errors\<close> have a capacity of at least 1, and the one
  send of the task, of the values or of the error, goes through with no receiver: so
  it does when the caller has returned on the timeout branch.\<close>

theorem task_send_never_blocks:
  "1 \<le> cap (fst Execute_channels) \<and> 1 \<le> cap (snd Execute_channels) \<and>
   (\<forall>result. goroutine (Some (Inr result)) Execute_channels =
      Some (\<lparr>cap = 1, buf = [result]\<rparr>, \<lparr>cap = 1, buf = []\<rparr>)) \<and>
   (\<forall>err. goroutine (Some (Inl err)) Execute_channels =
      Some (\<lparr>cap = 1, buf = []\<rparr>, \<lparr>cap = 1, buf = [err]\<rparr>))"
  by (simp add: Execute_channels_def make_chan_def goroutine_def send_def)

subsection \<open>\<open>ProfilingCommand.Execute\<close>\<close>

text \<open>C9: when the wrapped command returns an error, \<open>ProfilingCommand.Execute\<close> returns
  that error and the empty result, whose metadata has no \<open>profile\<close> entry.\<close>

theorem profiling_failure_propagates:
  assumes "Execute (profiling_Command cmd)
             (context\<lparr>Profiler := Some (profiling_Profiler cmd)\<rparr>) recorded =
           (Returns result (Some err), recorded')"
  shows "fst (ProfilingCommand_Execute cmd context recorded) = Returns empty_Result (Some err) \<and>
         \<not> has_profile (empty_Result :: 'b Result)"
  using assms by (simp add: ProfilingCommand_Execute_def has_profile_def empty_Result_def)

text \<open>A select whose range does not snap, under a profiling command.\<close>

theorem profiling_failure_propagates_witness:
  "Execute (SelectCommand_Command (spec_packages None) TaskFirst invalid_select)
     ((example_context 10 0)\<lparr>Profiler := Some 0\<rparr>) (\<lambda>profiler. []) =
     (Returns empty_Result (Some (Error ''invalid timerange'')), (\<lambda>profiler. [])) \<and>
   fst (ProfilingCommand_Execute
          \<lparr>profiling_Profiler = 0,
           profiling_Command = SelectCommand_Command (spec_packages None) TaskFirst invalid_select\<rparr>
          (example_context 10 0) (\<lambda>profiler. [])) =
     Returns empty_Result (Some (Error ''invalid timerange''))"
proof -
  let ?cmd = "\<lparr>profiling_Profiler = 0,
           profiling_Command = SelectCommand_Command (spec_packages None) TaskFirst invalid_select\<rparr>"
  have fails: "Execute (profiling_Command ?cmd)
     ((example_context 10 0)\<lparr>Profiler := Some (profiling_Profiler ?cmd)\<rparr>) (\<lambda>profiler. []) =
     (Returns empty_Result (Some (Error ''invalid timerange'')), (\<lambda>profiler. []))"
    by (simp add: SelectCommand_Command_def SelectCommand_Execute_def Execute_from_def
        negotiate_def spec_packages_def invalid_select_def spec_NewSnappedTimerange_def)
  from profiling_failure_propagates [OF fails]
  have returned: "fst (ProfilingCommand_Execute ?cmd (example_context 10 0) (\<lambda>profiler. [])) =
      Returns empty_Result (Some (Error ''invalid timerange''))"
    by (rule conjunct1)
  from fails have inner: "Execute (SelectCommand_Command (spec_packages None) TaskFirst invalid_select)
     ((example_context 10 0)\<lparr>Profiler := Some 0\<rparr>) (\<lambda>profiler. []) =
     (Returns empty_Result (Some (Error ''invalid timerange'')), (\<lambda>profiler. []))"
    by simp
  from inner returned show ?thesis
    by (rule conjI)
qed

end
